theory Spec2Isabelle
  imports Complex_Main
begin

section \<open>Numbers, strings and dates of the Python source\<close>

text \<open>
  The scheduling code of \<^verbatim>\<open>Calendar.py\<close> and the billing code of
  \<^verbatim>\<open>Patients_GUI.py\<close> compute with Python numbers. A Python \<^verbatim>\<open>int\<close> is
  an \<^typ>\<open>int\<close>. A Python \<^verbatim>\<open>float\<close> is modelled by an exact rational
  (\<^typ>\<open>rat\<close>): every number the booking engine itself produces (the unit costs 1.0, 1.5
  and 2.0, an integer capacity, and sums and differences of these) is a multiple of one half,
  which binary floating point holds exactly, so on these values the arithmetic of the model is
  the arithmetic of the program. Strings are byte strings; case folding and stripping are
  modelled on ASCII.
\<close>

text \<open>
  Python's built-in \<^verbatim>\<open>round(x, 2)\<close>: the multiple of 0.01 nearest to \<open>x\<close>, a tie
  going to the even multiple.
\<close>

definition py_round2 :: "rat \<Rightarrow> rat" where
  "py_round2 x =
     (let y = x * 100; f = \<lfloor>y\<rfloor>; d = y - of_int f
      in if d < 1 / 2 then of_int f / 100
         else if 1 / 2 < d then of_int (f + 1) / 100
         else if even f then of_int f / 100
         else of_int (f + 1) / 100)"

text \<open>Python's \<^verbatim>\<open>int(x)\<close> on a float truncates towards zero.\<close>

definition py_int :: "rat \<Rightarrow> int" where
  "py_int x = (if 0 \<le> x then \<lfloor>x\<rfloor> else \<lceil>x\<rceil>)"

text \<open>\<^verbatim>\<open>str(n)\<close> of an integer: its decimal digits, with a sign when negative.\<close>

definition digit_char :: "int \<Rightarrow> char" where
  "digit_char n = char_of (48 + n mod 10)"

function str_digits :: "int \<Rightarrow> string" where
  "str_digits n = (if n < 10 then [digit_char n] else str_digits (n div 10) @ [digit_char n])"
  by pat_completeness auto
termination
  by (relation "measure nat") auto

declare str_digits.simps [simp del]

definition str_int :: "int \<Rightarrow> string" where
  "str_int i = (if i < 0 then CHR ''-'' # str_digits (- i) else str_digits i)"

text \<open>\<^verbatim>\<open>str.lower()\<close> and \<^verbatim>\<open>str.strip()\<close>, on ASCII.\<close>

definition lower_char :: "char \<Rightarrow> char" where
  "lower_char c =
     (let n = (of_char c :: nat) in if 65 \<le> n \<and> n \<le> 90 then char_of (n + 32) else c)"

definition lower :: "string \<Rightarrow> string" where
  "lower s = map lower_char s"

definition isspace :: "char \<Rightarrow> bool" where
  "isspace c = (let n = (of_char c :: nat) in (9 \<le> n \<and> n \<le> 13) \<or> (28 \<le> n \<and> n \<le> 32))"

definition strip :: "string \<Rightarrow> string" where
  "strip s = rev (dropWhile isspace (rev (dropWhile isspace s)))"

text \<open>
  A \<^verbatim>\<open>datetime.date\<close> is its year, month and day; \<^verbatim>\<open>isoformat()\<close> renders it
  as \<^verbatim>\<open>YYYY-MM-DD\<close>.
\<close>

type_synonym pydate = "int \<times> int \<times> int"

definition zfill :: "nat \<Rightarrow> string \<Rightarrow> string" where
  "zfill n s = replicate (n - length s) (CHR ''0'') @ s"

fun isoformat :: "pydate \<Rightarrow> string" where
  "isoformat (y, m, d) =
     zfill 4 (str_int y) @ ''-'' @ zfill 2 (str_int m) @ ''-'' @ zfill 2 (str_int d)"

section \<open>Availability and the appointment ledger\<close>

text \<open>
  A row of \<^verbatim>\<open>availability_df\<close> (the columns that \<^verbatim>\<open>load_availability\<close>
  requires) and a row of \<^verbatim>\<open>appts_df\<close> (the ten columns of
  \<^verbatim>\<open>load_appointments\<close>). \<^verbatim>\<open>AppointmentDate\<close> is parsed with
  \<^verbatim>\<open>errors="coerce"\<close>, so a row may carry no date (\<open>None\<close>), which equals no
  date asked for. \<^verbatim>\<open>ScheduledAt\<close> is kept as the whole second of the clock reading
  rather than as its rendered text.
\<close>

record avail_row =
  av_DoctorID :: string
  av_Date :: pydate
  av_IsAvailable :: bool
  av_DailyCapacityUnits :: int
  av_Notes :: string

record appt_row =
  AppointmentID :: string
  DoctorID :: string
  DoctorName :: string
  AppointmentDate :: "pydate option"
  DurationMinutes :: int
  Units :: rat
  PatientID :: string
  PatientName :: string
  Status :: string
  ScheduledAt :: int

text \<open>\<^verbatim>\<open>DURATION_TO_UNITS = {30: 1.0, 45: 1.5, 60: 2.0}\<close>, read with \<^verbatim>\<open>.get\<close>.\<close>

definition DURATION_TO_UNITS :: "int \<Rightarrow> rat option" where
  "DURATION_TO_UNITS m =
     (if m = 30 then Some 1 else if m = 45 then Some (3 / 2) else if m = 60 then Some 2
      else None)"

text \<open>
  The row selection shared by \<^verbatim>\<open>_get_day_info\<close> and \<^verbatim>\<open>_try_book\<close>:
  the rows of the availability table for a doctor and a date; the code reads
  \<^verbatim>\<open>rows.iloc[0]\<close>, the first of them.
\<close>

definition avail_rows :: "avail_row list \<Rightarrow> string \<Rightarrow> pydate \<Rightarrow> avail_row list" where
  "avail_rows df doctor_id the_date =
     filter (\<lambda>r. av_DoctorID r = doctor_id \<and> av_Date r = the_date) df"

text \<open>The mask of \<^verbatim>\<open>_get_remaining_units\<close>: same doctor, same date, status
  \<^verbatim>\<open>booked\<close> after lower-casing.\<close>

definition same_day :: "appt_row list \<Rightarrow> string \<Rightarrow> pydate \<Rightarrow> appt_row list" where
  "same_day df doctor_id the_date =
     filter (\<lambda>a. DoctorID a = doctor_id \<and> AppointmentDate a = Some the_date
                 \<and> lower (Status a) = ''booked'') df"

definition get_remaining_units :: "appt_row list \<Rightarrow> string \<Rightarrow> pydate \<Rightarrow> int \<Rightarrow> rat" where
  "get_remaining_units df doctor_id the_date daily_units =
     (let sd = same_day df doctor_id the_date;
          used = (if sd \<noteq> [] then sum_list (map Units sd) else 0);
          remaining = of_int daily_units - used
      in max 0 (py_round2 remaining))"

section \<open>The calendar application and its environment\<close>

text \<open>
  The fields of \<^verbatim>\<open>CalendarApp\<close> that the booking flow reads and writes, followed by
  the part of the world it acts on: the contents of \<^verbatim>\<open>Appointments.csv\<close> as last
  written by \<^verbatim>\<open>save_appointments\<close>, whether that file can be written, the message
  boxes shown, the lines printed, and the calls made to the \<^verbatim>\<open>on_confirm\<close>
  callback. The widgets redrawn by \<^verbatim>\<open>_render_month\<close> are display only and are not
  part of the state.
\<close>

datatype cb_outcome = Returns | RaisesException string | RaisesBaseException string

datatype message =
    showwarning string string
  | showerror string string
  | showinfo string string

record calendar_app =
  availability_df :: "avail_row list"
  appts_df :: "appt_row list"
  doctor_names :: "(string \<times> string) list"
  selected_doctor_id :: "string option"
  selected_patient_id :: "string option"
  doctor_display_name :: "string option"
  patient_name :: string
  on_confirm :: "(int \<Rightarrow> pydate \<Rightarrow> cb_outcome) option"
  appts_file :: "appt_row list"
  file_writable :: bool
  messages :: "message list"
  printed :: "string list"
  confirm_calls :: "(int \<times> pydate) list"

text \<open>Python truthiness of an optional string: \<^verbatim>\<open>None\<close> and \<^verbatim>\<open>""\<close> are false.\<close>

fun truthy :: "string option \<Rightarrow> bool" where
  "truthy None = False"
| "truthy (Some s) = (s \<noteq> [])"

text \<open>\<^verbatim>\<open>x or default\<close> on an optional string.\<close>

fun or_else :: "string option \<Rightarrow> string \<Rightarrow> string" where
  "or_else None d = d"
| "or_else (Some s) d = (if s \<noteq> [] then s else d)"

text \<open>\<^verbatim>\<open>d.get(k, default)\<close> on the doctor-name dictionary.\<close>

definition dict_get :: "(string \<times> string) list \<Rightarrow> string \<Rightarrow> string \<Rightarrow> string" where
  "dict_get d k dflt = (case map_of d k of None \<Rightarrow> dflt | Some v \<Rightarrow> v)"

subsection \<open>Calendar display: \<^verbatim>\<open>_get_day_info\<close>\<close>

text \<open>
  The tooltip is kept structured, one constructor for each of the four texts of the source,
  instead of the formatted string.
\<close>

datatype tooltip =
    Unavailable_No_data
  | Unavailable_notes string
  | Unavailable_Fully_booked
  | Available_units_left rat string

record day_info =
  clickable :: bool
  tooltip :: tooltip

definition get_day_info :: "calendar_app \<Rightarrow> string \<Rightarrow> pydate \<Rightarrow> day_info" where
  "get_day_info self doctor_id the_date =
     (case avail_rows (availability_df self) doctor_id the_date of
        [] \<Rightarrow> \<lparr>clickable = False, tooltip = Unavailable_No_data\<rparr>
      | row # _ \<Rightarrow>
          (let is_available = av_IsAvailable row;
               daily_units = av_DailyCapacityUnits row;
               notes = av_Notes row;
               remaining_units = get_remaining_units (appts_df self) doctor_id the_date daily_units
           in if \<not> is_available then
                \<lparr>clickable = False,
                 tooltip = Unavailable_notes (if notes \<noteq> [] then notes else ''Not a clinic day'')\<rparr>
              else if remaining_units \<le> 0 then
                \<lparr>clickable = False, tooltip = Unavailable_Fully_booked\<rparr>
              else
                \<lparr>clickable = True, tooltip = Available_units_left remaining_units notes\<rparr>))"

subsection \<open>Booking: \<^verbatim>\<open>_try_book\<close>\<close>

text \<open>
  \<^verbatim>\<open>_try_book\<close> returns nothing; what it did shows in its effects. The model returns,
  beside the new state, which exit the call took: one of the four early returns (named as the
  specification names the rejections), the normal end after the commit, or an exception that
  leaves the function (\<^verbatim>\<open>to_csv\<close> failing inside \<^verbatim>\<open>save_appointments\<close>, or
  the callback raising something that \<^verbatim>\<open>except Exception\<close> does not catch).
\<close>

datatype rejection = NoDoctor | Unavailable | InvalidDuration | InsufficientCapacity

datatype raised = OSError | BaseException string

datatype booking_result = Rejected rejection | Committed appt_row | Raised raised

text \<open>The dictionary \<^verbatim>\<open>new_row\<close>; both clock readings are taken at \<open>now\<close>.\<close>

definition new_row :: "calendar_app \<Rightarrow> string \<Rightarrow> pydate \<Rightarrow> int \<Rightarrow> rat \<Rightarrow> rat \<Rightarrow> appt_row" where
  "new_row self doc the_date duration_minutes units_needed now =
     (let doctor_name =
            (if truthy (doctor_display_name self) then or_else (doctor_display_name self) []
             else dict_get (doctor_names self) doc doc);
          appt_id = ''A-'' @ str_int (py_int now)
      in \<lparr>AppointmentID = appt_id,
          DoctorID = doc,
          DoctorName = doctor_name,
          AppointmentDate = Some the_date,
          DurationMinutes = duration_minutes,
          Units = units_needed,
          PatientID = or_else (selected_patient_id self) [],
          PatientName = patient_name self,
          Status = ''Booked'',
          ScheduledAt = py_int now\<rparr>)"

text \<open>
  Lines 474 to 489: the row is appended to the ledger in memory, the whole ledger is written
  to the file, the callback is called inside \<^verbatim>\<open>try/except Exception\<close>, and the
  \<^verbatim>\<open>Booked\<close> box is shown.
\<close>

definition booked_message :: "pydate \<Rightarrow> int \<Rightarrow> message" where
  "booked_message the_date duration_minutes =
     showinfo ''Booked''
       (''Appointment booked on '' @ isoformat the_date @ '' ('' @ str_int duration_minutes
        @ '' min).'')"

definition commit :: "calendar_app \<Rightarrow> appt_row \<Rightarrow> pydate \<Rightarrow> int \<Rightarrow> booking_result \<times> calendar_app" where
  "commit self row the_date duration_minutes =
     (let s1 = self\<lparr>appts_df := appts_df self @ [row]\<rparr>
      in if \<not> file_writable s1 then (Raised OSError, s1)
         else
           (let s2 = s1\<lparr>appts_file := appts_df s1\<rparr>;
                done = (\<lambda>s. (Committed row,
                                s\<lparr>messages := messages s @ [booked_message the_date duration_minutes]\<rparr>))
            in case on_confirm s2 of
                 None \<Rightarrow> done s2
               | Some cb \<Rightarrow>
                   (let s3 = s2\<lparr>confirm_calls := confirm_calls s2 @ [(duration_minutes, the_date)]\<rparr>
                    in case cb duration_minutes the_date of
                         Returns \<Rightarrow> done s3
                       | RaisesException e \<Rightarrow>
                           done (s3\<lparr>printed := printed s3
                                      @ [''[Calendar] on_confirm callback failed: '' @ e]\<rparr>)
                       | RaisesBaseException e \<Rightarrow> (Raised (BaseException e), s3))))"

definition reject :: "calendar_app \<Rightarrow> rejection \<Rightarrow> message \<Rightarrow> booking_result \<times> calendar_app" where
  "reject self r m = (Rejected r, self\<lparr>messages := messages self @ [m]\<rparr>)"

definition try_book :: "calendar_app \<Rightarrow> pydate \<Rightarrow> int \<Rightarrow> rat \<Rightarrow> booking_result \<times> calendar_app" where
  "try_book self the_date duration_minutes now =
     (if \<not> truthy (selected_doctor_id self) then
        reject self NoDoctor (showwarning ''Missing Doctor'' ''No DoctorID set. Cannot book.'')
      else
        (let doc = or_else (selected_doctor_id self) []
         in case avail_rows (availability_df self) doc the_date of
              [] \<Rightarrow>
                reject self Unavailable
                  (showerror ''Unavailable'' ''No availability data for this date.'')
            | row # _ \<Rightarrow>
                if \<not> av_IsAvailable row then
                  reject self Unavailable
                    (showerror ''Unavailable'' ''This date is marked unavailable.'')
                else
                  (case DURATION_TO_UNITS duration_minutes of
                     None \<Rightarrow>
                       reject self InvalidDuration
                         (showerror ''Invalid duration'' ''Please choose 30, 45, or 60 minutes.'')
                   | Some units_needed \<Rightarrow>
                       (let daily_units = av_DailyCapacityUnits row;
                            remaining = get_remaining_units (appts_df self) doc the_date daily_units
                        in if remaining < units_needed then
                             reject self InsufficientCapacity
                               (showinfo ''Fully booked''
                                  ''Not enough capacity left for that duration.'')
                           else
                             commit self
                               (new_row self doc the_date duration_minutes units_needed now)
                               the_date duration_minutes))))"

text \<open>The five boxes that \<^verbatim>\<open>_try_book\<close> shows before an early return.\<close>

definition rejection_messages :: "message set" where
  "rejection_messages =
     {showwarning ''Missing Doctor'' ''No DoctorID set. Cannot book.'',
      showerror ''Unavailable'' ''No availability data for this date.'',
      showerror ''Unavailable'' ''This date is marked unavailable.'',
      showerror ''Invalid duration'' ''Please choose 30, 45, or 60 minutes.'',
      showinfo ''Fully booked'' ''Not enough capacity left for that duration.''}"

subsection \<open>A session\<close>

text \<open>
  \<^verbatim>\<open>set_context\<close> points the screen at a doctor and a patient. A session is a sequence
  of such calls and of booking requests (date, duration, clock reading), served one after the
  other whatever each one's outcome, an exception included: the window stays open.
\<close>

definition set_context :: "calendar_app \<Rightarrow> string \<Rightarrow> string option \<Rightarrow> calendar_app" where
  "set_context self doctor_id patient_id =
     self\<lparr>selected_doctor_id := Some doctor_id, selected_patient_id := patient_id\<rparr>"

datatype event = Set_context string "string option" | Try_book pydate int rat

fun step :: "calendar_app \<Rightarrow> event \<Rightarrow> calendar_app" where
  "step self (Set_context doctor_id patient_id) = set_context self doctor_id patient_id"
| "step self (Try_book the_date duration_minutes now) =
     snd (try_book self the_date duration_minutes now)"

definition run_session :: "calendar_app \<Rightarrow> event list \<Rightarrow> calendar_app" where
  "run_session self evs = foldl step self evs"

subsection \<open>The ledger contract of the specification\<close>

text \<open>
  \<open>bookedUnitsFor\<close> as the specification words it: the sum of the units of all entries
  with matching doctor, matching date and status Booked, and 0 when nothing matches. The
  ledger holds the status as text and the program reads it without regard to case, so an
  entry has status Booked when its text lower-cased is \<^verbatim>\<open>booked\<close>.
\<close>

definition is_Booked :: "appt_row \<Rightarrow> bool" where
  "is_Booked a = (lower (Status a) = ''booked'')"

definition bookedUnitsFor :: "appt_row list \<Rightarrow> string \<Rightarrow> pydate \<Rightarrow> rat" where
  "bookedUnitsFor ledger doctor_id the_date =
     (\<Sum>a\<leftarrow>ledger. if DoctorID a = doctor_id \<and> AppointmentDate a = Some the_date \<and> is_Booked a
                  then Units a else 0)"

section \<open>Billing: \<^verbatim>\<open>BillingScreen.recalc\<close>\<close>

text \<open>
  What \<^verbatim>\<open>recalc\<close> reads: the two tables loaded from the CSV files (dictionaries with
  float values), the doctor's \<^verbatim>\<open>Specialty\<close> entry, the minutes stored by the booking
  callback and the patient's insurance id. It shows the seven values of the quote and stores
  the last of them in \<^verbatim>\<open>last_net_cost\<close>.
\<close>

record billing_screen =
  doc_fee_map :: "string \<rightharpoonup> rat"
  ins_disc_map :: "string \<rightharpoonup> rat"
  Specialty :: "string option"
  last_appointment_minutes :: "int option"
  insurance :: "string option"

record quote =
  base_fee :: rat
  mins :: int
  mult :: rat
  gross :: rat
  discount_pct :: rat
  discount_amt :: rat
  net :: rat

text \<open>\<^verbatim>\<open>self.time_mult = {30: 1.5, 45: 2.0, 60: 2.5}\<close>.\<close>

definition time_mult :: "int \<rightharpoonup> rat" where
  "time_mult m =
     (if m = 30 then Some (3 / 2) else if m = 45 then Some 2 else if m = 60 then Some (5 / 2)
      else None)"

definition get_or :: "('k \<rightharpoonup> rat) \<Rightarrow> 'k \<Rightarrow> rat \<Rightarrow> rat" where
  "get_or m k dflt = (case m k of None \<Rightarrow> dflt | Some v \<Rightarrow> v)"

definition recalc :: "billing_screen \<Rightarrow> quote" where
  "recalc self =
     (let specialty_key = lower (strip (or_else (Specialty self) []));
          base_fee = get_or (doc_fee_map self) specialty_key 0;
          mins0 = last_appointment_minutes self;
          mins = (case mins0 of
                    None \<Rightarrow> 30
                  | Some m \<Rightarrow> if m \<noteq> 30 \<and> m \<noteq> 45 \<and> m \<noteq> 60 then 30 else m);
          mult = get_or time_mult mins 1;
          gross = base_fee * mult;
          ins_id = (if truthy (insurance self) then strip (or_else (insurance self) []) else []);
          discount_pct = (if ins_id \<noteq> [] then get_or (ins_disc_map self) ins_id 0 else 0);
          discount_amt = gross * (discount_pct / 100);
          net = gross - discount_amt
      in \<lparr>base_fee = base_fee, mins = mins, mult = mult, gross = gross,
          discount_pct = discount_pct, discount_amt = discount_amt, net = net\<rparr>)"

section \<open>Scenarios\<close>

text \<open>
  The data of the specification's scenarios: doctor D1 works on 2025-12-10 with a capacity of
  two units and is off on 2025-12-11; no appointment is booked yet; the booking screen was
  opened for D1 with a callback that returns normally.
\<close>

definition scenario_availability :: "avail_row list" where
  "scenario_availability =
     [\<lparr>av_DoctorID = ''D1'', av_Date = (2025, 12, 10), av_IsAvailable = True,
        av_DailyCapacityUnits = 2, av_Notes = []\<rparr>,
      \<lparr>av_DoctorID = ''D1'', av_Date = (2025, 12, 11), av_IsAvailable = False,
        av_DailyCapacityUnits = 4, av_Notes = ''Holiday''\<rparr>]"

definition scenario_app :: calendar_app where
  "scenario_app =
     \<lparr>availability_df = scenario_availability, appts_df = [],
      doctor_names = [(''D1'', ''Dr. Daniel Blake'')],
      selected_doctor_id = Some ''D1'', selected_patient_id = Some ''P7'',
      doctor_display_name = None, patient_name = ''Ann Lee'',
      on_confirm = Some (\<lambda>minutes appt_date. Returns),
      appts_file = [], file_writable = True, messages = [], printed = [], confirm_calls = []\<rparr>"

text \<open>The same screen with a callback that raises an \<^verbatim>\<open>Exception\<close>.\<close>

definition scenario_failing_callback :: calendar_app where
  "scenario_failing_callback =
     scenario_app\<lparr>on_confirm := Some (\<lambda>minutes appt_date. RaisesException ''boom'')\<rparr>"

text \<open>The same screen with no doctor chosen and a day that cannot take any booking.\<close>

definition scenario_no_doctor :: calendar_app where
  "scenario_no_doctor = scenario_app\<lparr>selected_doctor_id := None\<rparr>"

definition scenario_full_availability :: "avail_row list" where
  "scenario_full_availability =
     [\<lparr>av_DoctorID = ''D1'', av_Date = (2025, 12, 10), av_IsAvailable = True,
        av_DailyCapacityUnits = 0, av_Notes = []\<rparr>]"

definition scenario_full :: calendar_app where
  "scenario_full = scenario_app\<lparr>availability_df := scenario_full_availability\<rparr>"

text \<open>
  The billing scenario: cardiology costs 200, insurance INS1 gives 20 percent, the booked
  appointment lasts 45 minutes. The second screen is for a specialty that has no fee and a
  patient without insurance.
\<close>

definition scenario_billing :: billing_screen where
  "scenario_billing =
     \<lparr>doc_fee_map = [''cardiology'' \<mapsto> 200], ins_disc_map = [''INS1'' \<mapsto> 20],
      Specialty = Some ''Cardiology'', last_appointment_minutes = Some 45,
      insurance = Some ''INS1''\<rparr>"

definition scenario_billing_unknown :: billing_screen where
  "scenario_billing_unknown =
     scenario_billing\<lparr>Specialty := Some ''Alchemy'', insurance := None,
                      last_appointment_minutes := Some 20\<rparr>"

text \<open>
  A ledger read from a file: a booking of D1 on 2025-12-10 written in capitals, a cancelled
  one on the same day, and a booking on another day.
\<close>

definition scenario_ledger :: "appt_row list" where
  "scenario_ledger =
     [\<lparr>AppointmentID = ''A-1'', DoctorID = ''D1'', DoctorName = ''Dr. Daniel Blake'',
        AppointmentDate = Some (2025, 12, 10), DurationMinutes = 45, Units = 3 / 2,
        PatientID = ''P1'', PatientName = ''Bo'', Status = ''BOOKED'', ScheduledAt = 1\<rparr>,
      \<lparr>AppointmentID = ''A-2'', DoctorID = ''D1'', DoctorName = ''Dr. Daniel Blake'',
        AppointmentDate = Some (2025, 12, 10), DurationMinutes = 30, Units = 1,
        PatientID = ''P2'', PatientName = ''Cy'', Status = ''Cancelled'', ScheduledAt = 2\<rparr>,
      \<lparr>AppointmentID = ''A-3'', DoctorID = ''D1'', DoctorName = ''Dr. Daniel Blake'',
        AppointmentDate = Some (2025, 12, 12), DurationMinutes = 60, Units = 2,
        PatientID = ''P3'', PatientName = ''Di'', Status = ''Booked'', ScheduledAt = 3\<rparr>]"

section \<open>The invariant of a day's ledger\<close>

text \<open>
  What every step of a session keeps true of one doctor's day with capacity \<open>C\<close>: the
  availability table is the one the session started with, the units booked on that day are a
  whole number of half units, and they do not exceed \<open>C\<close>.
\<close>

definition half_units :: "rat \<Rightarrow> bool" where
  "half_units x = (of_int \<lfloor>2 * x\<rfloor> = 2 * x)"

definition capacity_inv :: "avail_row list \<Rightarrow> string \<Rightarrow> pydate \<Rightarrow> int \<Rightarrow> calendar_app \<Rightarrow> bool" where
  "capacity_inv av doctor_id the_date C s =
     (availability_df s = av
      \<and> half_units (bookedUnitsFor (appts_df s) doctor_id the_date)
      \<and> bookedUnitsFor (appts_df s) doctor_id the_date \<le> of_int C)"

section \<open>Rounding to two decimals\<close>

lemma py_round2_cases:
  "py_round2 x = of_int \<lfloor>x * 100\<rfloor> / 100 \<and> x * 100 - of_int \<lfloor>x * 100\<rfloor> \<le> 1 / 2
   \<or> py_round2 x = of_int (\<lfloor>x * 100\<rfloor> + 1) / 100 \<and> 1 / 2 \<le> x * 100 - of_int \<lfloor>x * 100\<rfloor>"
  unfolding py_round2_def Let_def by (simp only: split: if_splits) linarith

text \<open>The rounded value is a whole number of hundredths, at most half a hundredth away.\<close>

lemma py_round2_hundredths: "\<exists>k::int. py_round2 x = of_int k / 100"
  using py_round2_cases [of x] by blast

lemma py_round2_near: "\<bar>py_round2 x - x\<bar> \<le> 1 / 200"
proof -
  define f where "f = \<lfloor>x * 100\<rfloor>"
  have a: "of_int f \<le> x * 100" and b: "x * 100 < of_int f + 1"
    unfolding f_def by linarith+
  from py_round2_cases [of x]
  consider "py_round2 x = of_int f / 100" "x * 100 - of_int f \<le> 1 / 2"
    | "py_round2 x = (of_int f + 1) / 100" "1 / 2 \<le> x * 100 - of_int f"
    unfolding f_def by auto
  then show ?thesis
  proof cases
    case 1
    then show ?thesis using a b by (auto simp: abs_le_iff)
  next
    case 2
    then show ?thesis using a b by (auto simp: abs_le_iff)
  qed
qed

text \<open>Half units are not changed by the rounding.\<close>

lemma py_round2_half: "py_round2 (of_int k / 2) = of_int k / 2"
proof -
  have y: "(of_int k / 2 :: rat) * 100 = of_int (50 * k)"
    by simp
  show ?thesis
    unfolding py_round2_def Let_def y floor_of_int
    by simp
qed

text \<open>Taking an even number of hundredths away commutes with the rounding.\<close>

lemma py_round2_shift: "py_round2 (x - of_int k / 50) = py_round2 x - of_int k / 50"
proof -
  have y: "(x - of_int k / 50) * 100 = x * 100 - of_int (2 * k)"
    by (simp add: algebra_simps)
  have f: "\<lfloor>x * 100 - of_int (2 * k)\<rfloor> = \<lfloor>x * 100\<rfloor> - 2 * k"
    by (rule floor_diff_of_int)
  have e: "even (\<lfloor>x * 100\<rfloor> - 2 * k) = even \<lfloor>x * 100\<rfloor>"
    by simp
  show ?thesis
    unfolding py_round2_def Let_def y f e
    by (simp add: field_simps)
qed

section \<open>Remaining capacity\<close>

lemma lower_Booked: "lower ''Booked'' = ''booked''"
  by code_simp

text \<open>The sum over the selected rows is the specification's \<open>bookedUnitsFor\<close>.\<close>

lemma used_eq: "sum_list (map Units (same_day df doc d)) = bookedUnitsFor df doc d"
  by (induction df) (simp_all add: same_day_def bookedUnitsFor_def is_Booked_def)

lemma same_day_empty_iff:
  "same_day df doc d = [] \<longleftrightarrow>
     (\<forall>a\<in>set df. \<not> (DoctorID a = doc \<and> AppointmentDate a = Some d \<and> is_Booked a))"
  by (auto simp: same_day_def is_Booked_def filter_empty_conv)

lemma remaining_eq:
  "get_remaining_units df doc d C = max 0 (py_round2 (of_int C - bookedUnitsFor df doc d))"
proof -
  have "(if same_day df doc d \<noteq> [] then sum_list (map Units (same_day df doc d)) else 0)
          = sum_list (map Units (same_day df doc d))"
    by simp
  then show ?thesis
    by (simp add: get_remaining_units_def Let_def used_eq)
qed

text \<open>
  Claim C4. For a capacity \<open>C\<close>, the remaining units computed for a doctor and a date are
  \<open>max 0 (round (C - consumed) 2)\<close>, where \<open>consumed\<close> is the sum of the units of exactly
  the ledger entries with that doctor, that date and status Booked, and is 0 when no entry
  matches; the result is never negative.
\<close>

theorem remaining_formula:
  "get_remaining_units df doctor_id the_date C
     = max 0 (py_round2 (of_int C - bookedUnitsFor df doctor_id the_date))
   \<and> 0 \<le> get_remaining_units df doctor_id the_date C
   \<and> ((\<forall>a\<in>set df. \<not> (DoctorID a = doctor_id \<and> AppointmentDate a = Some the_date
                         \<and> is_Booked a))
        \<longrightarrow> bookedUnitsFor df doctor_id the_date = 0)"
proof (intro conjI impI)
  show "get_remaining_units df doctor_id the_date C
     = max 0 (py_round2 (of_int C - bookedUnitsFor df doctor_id the_date))"
    by (rule remaining_eq)
  show "0 \<le> get_remaining_units df doctor_id the_date C"
    by (simp add: remaining_eq)
next
  assume "\<forall>a\<in>set df. \<not> (DoctorID a = doctor_id \<and> AppointmentDate a = Some the_date
                          \<and> is_Booked a)"
  then have "same_day df doctor_id the_date = []"
    by (simp add: same_day_empty_iff)
  then have "sum_list (map Units (same_day df doctor_id the_date)) = 0"
    by simp
  then show "bookedUnitsFor df doctor_id the_date = 0"
    by (simp add: used_eq)
qed

theorem remaining_formula_witness:
  "get_remaining_units scenario_ledger ''D1'' (2025, 12, 10) 4 = 5 / 2
   \<and> bookedUnitsFor scenario_ledger ''D1'' (2025, 12, 10) = 3 / 2
   \<and> bookedUnitsFor scenario_ledger ''D1'' (2025, 12, 11) = 0
   \<and> get_remaining_units scenario_ledger ''D1'' (2025, 12, 10) 1 = 0"
proof -
  have a: "max 0 (py_round2 (of_int 4 - bookedUnitsFor scenario_ledger ''D1'' (2025, 12, 10)))
             = 5 / 2"
    by code_simp
  have b: "bookedUnitsFor scenario_ledger ''D1'' (2025, 12, 10) = 3 / 2"
    by code_simp
  have c: "\<forall>a\<in>set scenario_ledger.
             \<not> (DoctorID a = ''D1'' \<and> AppointmentDate a = Some (2025, 12, 11) \<and> is_Booked a)"
    by code_simp
  have d: "max 0 (py_round2 (of_int 1 - bookedUnitsFor scenario_ledger ''D1'' (2025, 12, 10)))
             = 0"
    by code_simp
  from remaining_formula [of scenario_ledger "''D1''" "(2025, 12, 10)" 4] a
  have "get_remaining_units scenario_ledger ''D1'' (2025, 12, 10) 4 = 5 / 2"
    by simp
  moreover from remaining_formula [of scenario_ledger "''D1''" "(2025, 12, 11)" 4] c
  have "bookedUnitsFor scenario_ledger ''D1'' (2025, 12, 11) = 0"
    by blast
  moreover from remaining_formula [of scenario_ledger "''D1''" "(2025, 12, 10)" 1] d
  have "get_remaining_units scenario_ledger ''D1'' (2025, 12, 10) 1 = 0"
    by simp
  ultimately show ?thesis using b by blast
qed

section \<open>The exits of a booking request\<close>

lemma commit_not_rejected: "fst (commit self row the_date m) \<noteq> Rejected r"
  by (simp add: commit_def Let_def split: option.splits cb_outcome.splits)

lemma fst_reject: "fst (reject self r msg) = Rejected r"
  by (simp add: reject_def)

text \<open>
  Every request either shows one of the rejection boxes and returns, or has passed the four
  checks and runs the commit.
\<close>

lemma try_book_cases:
  "(\<exists>r msg. msg \<in> rejection_messages \<and> try_book self the_date m now = reject self r msg)
   \<or> (\<exists>doc row rest u.
         selected_doctor_id self = Some doc \<and> doc \<noteq> []
         \<and> avail_rows (availability_df self) doc the_date = row # rest \<and> av_IsAvailable row
         \<and> DURATION_TO_UNITS m = Some u
         \<and> u \<le> get_remaining_units (appts_df self) doc the_date (av_DailyCapacityUnits row)
         \<and> try_book self the_date m now
             = commit self (new_row self doc the_date m u now) the_date m)"
proof (cases "selected_doctor_id self")
  case None
  then show ?thesis
    by (auto simp: try_book_def rejection_messages_def)
next
  case (Some doc)
  note doc = this
  show ?thesis
  proof (cases "doc = []")
    case True
    with doc show ?thesis
      by (auto simp: try_book_def rejection_messages_def)
  next
    case False
    note nonempty = this
    show ?thesis
    proof (cases "avail_rows (availability_df self) doc the_date")
      case Nil
      with doc nonempty show ?thesis
        by (auto simp: try_book_def rejection_messages_def)
    next
      case (Cons row rest)
      note rows = this
      show ?thesis
      proof (cases "av_IsAvailable row")
        case False
        with doc nonempty rows show ?thesis
          by (auto simp: try_book_def rejection_messages_def)
      next
        case True
        note open_day = this
        show ?thesis
        proof (cases "DURATION_TO_UNITS m")
          case None
          with doc nonempty rows open_day show ?thesis
            by (auto simp: try_book_def rejection_messages_def)
        next
          case (Some u)
          with doc nonempty rows open_day show ?thesis
            by (auto simp: try_book_def rejection_messages_def Let_def)
        qed
      qed
    qed
  qed
qed

section \<open>Offerable dates\<close>

text \<open>
  Claim C5. A date is offered for booking (its calendar button is clickable) exactly when the
  availability table has a row for the doctor and the date, the first such row is marked
  available, and the remaining units computed for it are strictly positive. With no row at
  all, or with a row marked unavailable, the date is not offered, whatever the capacity.
\<close>

theorem offerable_iff:
  "(clickable (get_day_info self doctor_id the_date) \<longleftrightarrow>
      (\<exists>row rest. avail_rows (availability_df self) doctor_id the_date = row # rest
         \<and> av_IsAvailable row
         \<and> 0 < get_remaining_units (appts_df self) doctor_id the_date
                 (av_DailyCapacityUnits row)))
   \<and> (avail_rows (availability_df self) doctor_id the_date = [] \<longrightarrow>
        \<not> clickable (get_day_info self doctor_id the_date))
   \<and> (\<forall>row rest. avail_rows (availability_df self) doctor_id the_date = row # rest
          \<and> \<not> av_IsAvailable row \<longrightarrow> \<not> clickable (get_day_info self doctor_id the_date))"
  by (auto simp: get_day_info_def Let_def split: list.splits)

theorem offerable_iff_witness:
  "(\<exists>row rest. avail_rows (availability_df scenario_app) ''D1'' (2025, 12, 10) = row # rest
       \<and> av_IsAvailable row
       \<and> 0 < get_remaining_units (appts_df scenario_app) ''D1'' (2025, 12, 10)
               (av_DailyCapacityUnits row))
   \<and> \<not> clickable (get_day_info scenario_app ''D2'' (2025, 12, 10))
   \<and> \<not> clickable (get_day_info scenario_app ''D1'' (2025, 12, 11))"
proof -
  have a: "clickable (get_day_info scenario_app ''D1'' (2025, 12, 10))"
    by code_simp
  have b: "avail_rows (availability_df scenario_app) ''D2'' (2025, 12, 10) = []"
    by code_simp
  have c: "avail_rows (availability_df scenario_app) ''D1'' (2025, 12, 11)
             = [scenario_availability ! 1] \<and> \<not> av_IsAvailable (scenario_availability ! 1)"
    by code_simp
  from a offerable_iff [of scenario_app "''D1''" "(2025, 12, 10)"]
  have "\<exists>row rest. avail_rows (availability_df scenario_app) ''D1'' (2025, 12, 10) = row # rest
       \<and> av_IsAvailable row
       \<and> 0 < get_remaining_units (appts_df scenario_app) ''D1'' (2025, 12, 10)
               (av_DailyCapacityUnits row)"
    by blast
  moreover from b offerable_iff [of scenario_app "''D2''" "(2025, 12, 10)"]
  have "\<not> clickable (get_day_info scenario_app ''D2'' (2025, 12, 10))"
    by blast
  moreover from c offerable_iff [of scenario_app "''D1''" "(2025, 12, 11)"]
  have "\<not> clickable (get_day_info scenario_app ''D1'' (2025, 12, 11))"
    by blast
  ultimately show ?thesis by blast
qed

section \<open>The effect of a commit on the ledger\<close>

lemma commit_ledger: "appts_df (snd (commit self row d m)) = appts_df self @ [row]"
  by (simp add: commit_def Let_def split: option.splits cb_outcome.splits)

lemma commit_availability: "availability_df (snd (commit self row d m)) = availability_df self"
  by (simp add: commit_def Let_def split: option.splits cb_outcome.splits)

lemma commit_Committed: "fst (commit self row d m) = Committed a \<Longrightarrow> a = row"
  by (simp add: commit_def Let_def split: option.splits cb_outcome.splits if_splits)

lemma reject_ledger: "appts_df (snd (reject self r msg)) = appts_df self"
  by (simp add: reject_def)

lemma reject_availability: "availability_df (snd (reject self r msg)) = availability_df self"
  by (simp add: reject_def)

lemma try_book_availability:
  "availability_df (snd (try_book self d m now)) = availability_df self"
  using try_book_cases [of self d m now]
  by (auto simp: reject_availability commit_availability)

lemma new_row_fields:
  "DoctorID (new_row self doc d m u now) = doc"
  "AppointmentDate (new_row self doc d m u now) = Some d"
  "Units (new_row self doc d m u now) = u"
  "Status (new_row self doc d m u now) = ''Booked''"
  "DurationMinutes (new_row self doc d m u now) = m"
  "AppointmentID (new_row self doc d m u now) = ''A-'' @ str_int (py_int now)"
  by (simp_all add: new_row_def Let_def)

lemma is_Booked_new_row: "is_Booked (new_row self doc d m u now)"
  by (simp add: is_Booked_def new_row_fields lower_Booked)

lemma bookedUnitsFor_append:
  "bookedUnitsFor (df @ [a]) doc d =
     bookedUnitsFor df doc d
     + (if DoctorID a = doc \<and> AppointmentDate a = Some d \<and> is_Booked a then Units a else 0)"
  by (simp add: bookedUnitsFor_def)

lemma bookedUnitsFor_new_row:
  "bookedUnitsFor (df @ [new_row self doc' d' m u now]) doc d =
     bookedUnitsFor df doc d + (if doc' = doc \<and> d' = d then u else 0)"
  by (simp add: bookedUnitsFor_append new_row_fields is_Booked_new_row)

lemma unit_cost_cases:
  "DURATION_TO_UNITS m = Some u \<Longrightarrow>
     (m = 30 \<and> u = 1) \<or> (m = 45 \<and> u = 3 / 2) \<or> (m = 60 \<and> u = 2)"
  by (auto simp: DURATION_TO_UNITS_def split: if_splits)

lemma unit_cost_fiftieths:
  "DURATION_TO_UNITS m = Some u \<Longrightarrow> \<exists>k::int. u = of_int k / 50 \<and> 0 < u"
proof -
  assume "DURATION_TO_UNITS m = Some u"
  then consider "u = 1" | "u = 3 / 2" | "u = 2"
    using unit_cost_cases by blast
  then show ?thesis
  proof cases
    case 1 then show ?thesis by (intro exI [of _ 50]) simp
  next
    case 2 then show ?thesis by (intro exI [of _ 75]) simp
  next
    case 3 then show ?thesis by (intro exI [of _ 100]) simp
  qed
qed

lemma remaining_after:
  assumes u: "DURATION_TO_UNITS m = Some u"
    and enough: "u \<le> get_remaining_units df doc d C"
  shows "get_remaining_units (df @ [new_row self doc d m u now]) doc d C
           = get_remaining_units df doc d C - u"
proof -
  obtain k :: int where k: "u = of_int k / 50" and pos: "0 < u"
    using unit_cost_fiftieths [OF u] by blast
  define x where "x = of_int C - bookedUnitsFor df doc d"
  have before: "get_remaining_units df doc d C = max 0 (py_round2 x)"
    by (simp add: remaining_eq x_def)
  have "get_remaining_units (df @ [new_row self doc d m u now]) doc d C
          = max 0 (py_round2 (x - u))"
    by (simp add: remaining_eq bookedUnitsFor_new_row x_def algebra_simps)
  also have "py_round2 (x - u) = py_round2 x - u"
    unfolding k by (rule py_round2_shift)
  finally have after: "get_remaining_units (df @ [new_row self doc d m u now]) doc d C
          = max 0 (py_round2 x - u)" .
  from enough pos before have "u \<le> py_round2 x"
    by (simp add: max_def split: if_splits)
  with after before pos show ?thesis
    by (simp add: max_def)
qed

section \<open>Consumption of capacity by a booking\<close>

text \<open>
  Claim C3. When a booking of a doctor's day succeeds, its duration is 30, 45 or 60 minutes
  and costs 1, 1.5 or 2 units, and the remaining units computed for that doctor and date
  after the commit are the remaining units computed before it minus that cost; the two
  differ by no more than the rounding tolerance 0.01 (in fact by nothing).
\<close>

theorem booking_consumes:
  assumes booked: "try_book self the_date m now = (Committed a, s')"
    and doc: "selected_doctor_id self = Some doc"
    and rows: "avail_rows (availability_df self) doc the_date = row # rest"
  shows "\<exists>u. DURATION_TO_UNITS m = Some u \<and> Units a = u
           \<and> (m = 30 \<and> u = 1 \<or> m = 45 \<and> u = 3 / 2 \<or> m = 60 \<and> u = 2)
           \<and> avail_rows (availability_df s') doc the_date = row # rest
           \<and> get_remaining_units (appts_df s') doc the_date (av_DailyCapacityUnits row)
               = get_remaining_units (appts_df self) doc the_date (av_DailyCapacityUnits row) - u
           \<and> \<bar>get_remaining_units (appts_df s') doc the_date (av_DailyCapacityUnits row)
                - (get_remaining_units (appts_df self) doc the_date (av_DailyCapacityUnits row) - u)\<bar>
               \<le> 1 / 100"
proof -
  from booked have fst_tb: "fst (try_book self the_date m now) = Committed a"
    and snd_tb: "snd (try_book self the_date m now) = s'"
    by simp_all
  from try_book_cases [of self the_date m now] fst_tb doc rows
  obtain u where u: "DURATION_TO_UNITS m = Some u"
    and enough: "u \<le> get_remaining_units (appts_df self) doc the_date (av_DailyCapacityUnits row)"
    and tb: "try_book self the_date m now
               = commit self (new_row self doc the_date m u now) the_date m"
    by (auto simp: fst_reject)
  from fst_tb tb have a: "a = new_row self doc the_date m u now"
    by (simp add: commit_Committed)
  have ledger: "appts_df s' = appts_df self @ [new_row self doc the_date m u now]"
    unfolding snd_tb [symmetric] tb by (rule commit_ledger)
  from snd_tb have av: "availability_df s' = availability_df self"
    using try_book_availability [of self the_date m now] by simp
  have eq: "get_remaining_units (appts_df s') doc the_date (av_DailyCapacityUnits row)
               = get_remaining_units (appts_df self) doc the_date (av_DailyCapacityUnits row) - u"
    unfolding ledger by (rule remaining_after [OF u enough])
  show ?thesis
  proof (intro exI [of _ u] conjI)
    show "DURATION_TO_UNITS m = Some u" by (rule u)
    show "Units a = u" by (simp add: a new_row_fields)
    show "m = 30 \<and> u = 1 \<or> m = 45 \<and> u = 3 / 2 \<or> m = 60 \<and> u = 2"
      by (rule unit_cost_cases [OF u])
    show "avail_rows (availability_df s') doc the_date = row # rest"
      by (simp add: av rows)
    show "get_remaining_units (appts_df s') doc the_date (av_DailyCapacityUnits row)
               = get_remaining_units (appts_df self) doc the_date (av_DailyCapacityUnits row) - u"
      by (rule eq)
    show "\<bar>get_remaining_units (appts_df s') doc the_date (av_DailyCapacityUnits row)
                - (get_remaining_units (appts_df self) doc the_date (av_DailyCapacityUnits row) - u)\<bar>
               \<le> 1 / 100"
      by (simp add: eq)
  qed
qed

theorem booking_consumes_witness:
  "get_remaining_units (appts_df scenario_app) ''D1'' (2025, 12, 10) 2 = 2
   \<and> get_remaining_units (appts_df (snd (try_book scenario_app (2025, 12, 10) 60 7)))
         ''D1'' (2025, 12, 10) 2 = 0"
proof -
  have "fst (try_book scenario_app (2025, 12, 10) 60 7)
          = Committed (new_row scenario_app ''D1'' (2025, 12, 10) 60 2 7)"
    by code_simp
  then have booked: "try_book scenario_app (2025, 12, 10) 60 7
          = (Committed (new_row scenario_app ''D1'' (2025, 12, 10) 60 2 7),
             snd (try_book scenario_app (2025, 12, 10) 60 7))"
    by (simp add: prod_eq_iff)
  have doc: "selected_doctor_id scenario_app = Some ''D1''"
    by code_simp
  have rows: "avail_rows (availability_df scenario_app) ''D1'' (2025, 12, 10)
                = scenario_availability ! 0 # []"
    by code_simp
  have C: "av_DailyCapacityUnits (scenario_availability ! 0) = 2"
    by code_simp
  have before: "get_remaining_units (appts_df scenario_app) ''D1'' (2025, 12, 10) 2 = 2"
    by code_simp
  have cost: "DURATION_TO_UNITS 60 = Some 2"
    by code_simp
  from booking_consumes [OF booked doc rows] cost before
  show ?thesis
    by (auto simp: C)
qed

section \<open>Capacity is never exceeded\<close>

lemma half_unitsD: "half_units x \<Longrightarrow> \<exists>k::int. x = of_int k / 2"
proof -
  assume "half_units x"
  then have "of_int \<lfloor>2 * x\<rfloor> = 2 * x"
    unfolding half_units_def .
  then have "x = of_int \<lfloor>2 * x\<rfloor> / 2"
    by linarith
  then show ?thesis ..
qed

lemma half_units_of_int_half: "half_units (of_int k / 2)"
  by (simp add: half_units_def)

lemma half_units_zero: "half_units 0"
  by (simp add: half_units_def)

lemma half_units_add_cost:
  assumes "half_units x" and u: "DURATION_TO_UNITS m = Some u"
  shows "half_units (x + u)"
proof -
  obtain k :: int where k: "x = of_int k / 2"
    using half_unitsD [OF assms(1)] by blast
  from unit_cost_cases [OF u] consider "u = 1" | "u = 3 / 2" | "u = 2"
    by blast
  then show ?thesis
  proof cases
    case 1
    have "x + u = of_int (k + 2) / 2" by (simp add: k 1)
    then show ?thesis by (simp only: half_units_of_int_half)
  next
    case 2
    have "x + u = of_int (k + 3) / 2" by (simp add: k 2 add_divide_distrib)
    then show ?thesis by (simp only: half_units_of_int_half)
  next
    case 3
    have "x + u = of_int (k + 4) / 2" by (simp add: k 3)
    then show ?thesis by (simp only: half_units_of_int_half)
  qed
qed

lemma enough_room:
  assumes half: "half_units used"
    and u: "DURATION_TO_UNITS m = Some u"
    and enough: "u \<le> max 0 (py_round2 (of_int C - used))"
  shows "used + u \<le> of_int C"
proof -
  obtain k :: int where k: "used = of_int k / 2"
    using half_unitsD [OF half] by blast
  have "of_int C - used = (of_int (2 * C - k) :: rat) / 2"
    by (simp add: k diff_divide_distrib)
  then have "py_round2 (of_int C - used) = of_int C - used"
    by (simp only: py_round2_half)
  moreover have "0 < u"
    using unit_cost_fiftieths [OF u] by blast
  ultimately show ?thesis
    using enough by (simp add: max_def split: if_splits)
qed

lemma capacity_inv_try_book:
  assumes inv: "capacity_inv av doc d (av_DailyCapacityUnits row) s"
    and rows: "avail_rows av doc d = row # rest"
  shows "capacity_inv av doc d (av_DailyCapacityUnits row) (snd (try_book s d' m now))"
proof -
  from inv have av: "availability_df s = av"
    and half: "half_units (bookedUnitsFor (appts_df s) doc d)"
    and le: "bookedUnitsFor (appts_df s) doc d \<le> of_int (av_DailyCapacityUnits row)"
    by (simp_all add: capacity_inv_def)
  have av': "availability_df (snd (try_book s d' m now)) = av"
    by (simp add: try_book_availability av)
  from try_book_cases [of s d' m now]
  consider (rejected) r msg where "try_book s d' m now = reject s r msg"
    | (committed) doc' row' rest' u where
        "selected_doctor_id s = Some doc'"
        "avail_rows (availability_df s) doc' d' = row' # rest'"
        "DURATION_TO_UNITS m = Some u"
        "u \<le> get_remaining_units (appts_df s) doc' d' (av_DailyCapacityUnits row')"
        "try_book s d' m now = commit s (new_row s doc' d' m u now) d' m"
    by blast
  then show ?thesis
  proof cases
    case rejected
    then have "appts_df (snd (try_book s d' m now)) = appts_df s"
      by (simp add: reject_ledger)
    with av' half le show ?thesis
      by (simp add: capacity_inv_def)
  next
    case committed
    then have ledger: "appts_df (snd (try_book s d' m now))
                         = appts_df s @ [new_row s doc' d' m u now]"
      by (simp add: commit_ledger)
    show ?thesis
    proof (cases "doc' = doc \<and> d' = d")
      case False
      then have "bookedUnitsFor (appts_df (snd (try_book s d' m now))) doc d
                   = bookedUnitsFor (appts_df s) doc d"
        unfolding ledger by (auto simp: bookedUnitsFor_new_row)
      with av' half le show ?thesis
        by (simp add: capacity_inv_def)
    next
      case True
      with committed(2) rows av have "row' = row"
        by simp
      with committed(4) True
      have "u \<le> max 0 (py_round2 (of_int (av_DailyCapacityUnits row)
                                   - bookedUnitsFor (appts_df s) doc d))"
        by (simp add: remaining_eq)
      then have room: "bookedUnitsFor (appts_df s) doc d + u \<le> of_int (av_DailyCapacityUnits row)"
        by (rule enough_room [OF half committed(3)])
      have new: "bookedUnitsFor (appts_df (snd (try_book s d' m now))) doc d
                   = bookedUnitsFor (appts_df s) doc d + u"
        unfolding ledger using True by (simp add: bookedUnitsFor_new_row)
      have "half_units (bookedUnitsFor (appts_df s) doc d + u)"
        by (rule half_units_add_cost [OF half committed(3)])
      with av' room new show ?thesis
        by (simp add: capacity_inv_def)
    qed
  qed
qed

lemma capacity_inv_step:
  assumes "capacity_inv av doc d (av_DailyCapacityUnits row) s"
    and "avail_rows av doc d = row # rest"
  shows "capacity_inv av doc d (av_DailyCapacityUnits row) (step s ev)"
proof (cases ev)
  case (Set_context doctor_id patient_id)
  with assms(1) show ?thesis
    by (simp add: capacity_inv_def set_context_def)
next
  case (Try_book d' m now)
  with capacity_inv_try_book [OF assms] show ?thesis
    by simp
qed

lemma capacity_inv_run:
  assumes "avail_rows av doc d = row # rest"
  shows "capacity_inv av doc d (av_DailyCapacityUnits row) s \<Longrightarrow>
         capacity_inv av doc d (av_DailyCapacityUnits row) (run_session s evs)"
  unfolding run_session_def
proof (induction evs arbitrary: s)
  case Nil
  then show ?case by simp
next
  case (Cons ev evs)
  from capacity_inv_step [OF Cons.prems assms]
  have "capacity_inv av doc d (av_DailyCapacityUnits row) (step s ev)" .
  then show ?case
    by (simp add: Cons.IH)
qed

text \<open>
  Claim C1. Take a doctor and a date whose availability record has capacity \<open>C\<close> (not
  negative, as the data model has it) and a ledger holding no Booked appointment for them.
  Whatever booking requests and changes of context follow, the units of the Booked
  appointments of that doctor and date never add up to more than \<open>C\<close>.
\<close>

theorem capacity_conservation:
  assumes rows: "avail_rows (availability_df self) doctor_id the_date = row # rest"
    and nonneg: "0 \<le> av_DailyCapacityUnits row"
    and fresh: "\<forall>a\<in>set (appts_df self).
                  \<not> (DoctorID a = doctor_id \<and> AppointmentDate a = Some the_date \<and> is_Booked a)"
  shows "bookedUnitsFor (appts_df (run_session self evs)) doctor_id the_date
           \<le> of_int (av_DailyCapacityUnits row)"
proof -
  from fresh have "same_day (appts_df self) doctor_id the_date = []"
    by (simp add: same_day_empty_iff)
  then have "sum_list (map Units (same_day (appts_df self) doctor_id the_date)) = 0"
    by simp
  then have zero: "bookedUnitsFor (appts_df self) doctor_id the_date = 0"
    by (simp add: used_eq)
  have "capacity_inv (availability_df self) doctor_id the_date (av_DailyCapacityUnits row) self"
    using nonneg by (simp add: capacity_inv_def zero half_units_zero)
  from capacity_inv_run [OF rows this]
  show ?thesis
    by (simp add: capacity_inv_def)
qed

theorem capacity_conservation_witness:
  "bookedUnitsFor
     (appts_df (run_session scenario_app
        [Try_book (2025, 12, 10) 30 7, Try_book (2025, 12, 10) 60 8, Set_context ''D1'' None,
         Try_book (2025, 12, 10) 30 9, Try_book (2025, 12, 10) 30 10]))
     ''D1'' (2025, 12, 10) \<le> 2
   \<and> length (appts_df (run_session scenario_app
        [Try_book (2025, 12, 10) 30 7, Try_book (2025, 12, 10) 60 8, Set_context ''D1'' None,
         Try_book (2025, 12, 10) 30 9, Try_book (2025, 12, 10) 30 10])) = 2"
proof -
  have two: "length (appts_df (run_session scenario_app
        [Try_book (2025, 12, 10) 30 7, Try_book (2025, 12, 10) 60 8, Set_context ''D1'' None,
         Try_book (2025, 12, 10) 30 9, Try_book (2025, 12, 10) 30 10])) = 2"
    by code_simp
  have rows: "avail_rows (availability_df scenario_app) ''D1'' (2025, 12, 10)
                = scenario_availability ! 0 # []"
    by code_simp
  have nonneg: "0 \<le> av_DailyCapacityUnits (scenario_availability ! 0)"
    by code_simp
  have fresh: "\<forall>a\<in>set (appts_df scenario_app).
                 \<not> (DoctorID a = ''D1'' \<and> AppointmentDate a = Some (2025, 12, 10) \<and> is_Booked a)"
    by code_simp
  have C: "av_DailyCapacityUnits (scenario_availability ! 0) = 2"
    by code_simp
  from capacity_conservation [OF rows nonneg fresh] two show ?thesis
    by (simp add: C)
qed

section \<open>The order of the checks\<close>

text \<open>
  Claim C2. A booking request is checked in this order: a doctor is set; an availability
  row exists for the doctor and the date and is marked available; the duration is 30, 45 or
  60 minutes; the remaining units cover the duration's cost. The first check that fails
  gives the rejection: no doctor; unavailable; invalid duration, whatever the capacity left
  and so also when nothing is left; insufficient capacity. A request that passes all four is
  not rejected.
\<close>

theorem rejection_order:
  "(\<not> truthy (selected_doctor_id self) \<longrightarrow>
      fst (try_book self the_date m now) = Rejected NoDoctor)
   \<and> (selected_doctor_id self = Some doc \<and> doc \<noteq> []
       \<and> (\<forall>row rest. avail_rows (availability_df self) doc the_date = row # rest
             \<longrightarrow> \<not> av_IsAvailable row) \<longrightarrow>
      fst (try_book self the_date m now) = Rejected Unavailable)
   \<and> (selected_doctor_id self = Some doc \<and> doc \<noteq> []
       \<and> avail_rows (availability_df self) doc the_date = row # rest \<and> av_IsAvailable row
       \<and> m \<notin> {30, 45, 60} \<longrightarrow>
      fst (try_book self the_date m now) = Rejected InvalidDuration)
   \<and> (selected_doctor_id self = Some doc \<and> doc \<noteq> []
       \<and> avail_rows (availability_df self) doc the_date = row # rest \<and> av_IsAvailable row
       \<and> m \<notin> {30, 45, 60}
       \<and> get_remaining_units (appts_df self) doc the_date (av_DailyCapacityUnits row) < 1 \<longrightarrow>
      fst (try_book self the_date m now) = Rejected InvalidDuration)
   \<and> (selected_doctor_id self = Some doc \<and> doc \<noteq> []
       \<and> avail_rows (availability_df self) doc the_date = row # rest \<and> av_IsAvailable row
       \<and> m \<in> {30, 45, 60} \<and> DURATION_TO_UNITS m = Some u
       \<and> get_remaining_units (appts_df self) doc the_date (av_DailyCapacityUnits row) < u \<longrightarrow>
      fst (try_book self the_date m now) = Rejected InsufficientCapacity)
   \<and> (selected_doctor_id self = Some doc \<and> doc \<noteq> []
       \<and> avail_rows (availability_df self) doc the_date = row # rest \<and> av_IsAvailable row
       \<and> m \<in> {30, 45, 60} \<and> DURATION_TO_UNITS m = Some u
       \<and> u \<le> get_remaining_units (appts_df self) doc the_date (av_DailyCapacityUnits row) \<longrightarrow>
      (\<forall>r. fst (try_book self the_date m now) \<noteq> Rejected r))"
proof (intro conjI impI)
  assume "\<not> truthy (selected_doctor_id self)"
  then show "fst (try_book self the_date m now) = Rejected NoDoctor"
    by (simp add: try_book_def fst_reject)
next
  assume "selected_doctor_id self = Some doc \<and> doc \<noteq> []
       \<and> (\<forall>row rest. avail_rows (availability_df self) doc the_date = row # rest
             \<longrightarrow> \<not> av_IsAvailable row)"
  then show "fst (try_book self the_date m now) = Rejected Unavailable"
    by (simp add: try_book_def fst_reject split: list.splits)
next
  assume "selected_doctor_id self = Some doc \<and> doc \<noteq> []
       \<and> avail_rows (availability_df self) doc the_date = row # rest \<and> av_IsAvailable row
       \<and> m \<notin> {30, 45, 60}"
  then show "fst (try_book self the_date m now) = Rejected InvalidDuration"
    by (simp add: try_book_def fst_reject DURATION_TO_UNITS_def)
next
  assume "selected_doctor_id self = Some doc \<and> doc \<noteq> []
       \<and> avail_rows (availability_df self) doc the_date = row # rest \<and> av_IsAvailable row
       \<and> m \<notin> {30, 45, 60}
       \<and> get_remaining_units (appts_df self) doc the_date (av_DailyCapacityUnits row) < 1"
  then show "fst (try_book self the_date m now) = Rejected InvalidDuration"
    by (simp add: try_book_def fst_reject DURATION_TO_UNITS_def)
next
  assume "selected_doctor_id self = Some doc \<and> doc \<noteq> []
       \<and> avail_rows (availability_df self) doc the_date = row # rest \<and> av_IsAvailable row
       \<and> m \<in> {30, 45, 60} \<and> DURATION_TO_UNITS m = Some u
       \<and> get_remaining_units (appts_df self) doc the_date (av_DailyCapacityUnits row) < u"
  then show "fst (try_book self the_date m now) = Rejected InsufficientCapacity"
    by (simp add: try_book_def fst_reject)
next
  assume "selected_doctor_id self = Some doc \<and> doc \<noteq> []
       \<and> avail_rows (availability_df self) doc the_date = row # rest \<and> av_IsAvailable row
       \<and> m \<in> {30, 45, 60} \<and> DURATION_TO_UNITS m = Some u
       \<and> u \<le> get_remaining_units (appts_df self) doc the_date (av_DailyCapacityUnits row)"
  then show "\<forall>r. fst (try_book self the_date m now) \<noteq> Rejected r"
    by (simp add: try_book_def commit_not_rejected)
qed

theorem rejection_order_witness:
  "fst (try_book scenario_no_doctor (2025, 12, 10) 20 7) = Rejected NoDoctor
   \<and> fst (try_book scenario_app (2025, 12, 11) 20 7) = Rejected Unavailable
   \<and> fst (try_book scenario_app (2025, 12, 25) 20 7) = Rejected Unavailable
   \<and> fst (try_book scenario_full (2025, 12, 10) 20 7) = Rejected InvalidDuration
   \<and> fst (try_book scenario_full (2025, 12, 10) 30 7) = Rejected InsufficientCapacity
   \<and> (\<forall>r. fst (try_book scenario_app (2025, 12, 10) 60 7) \<noteq> Rejected r)"
proof -
  have no_doctor: "\<not> truthy (selected_doctor_id scenario_no_doctor)"
    by code_simp
  have closed: "selected_doctor_id scenario_app = Some ''D1'' \<and> ''D1'' \<noteq> []
      \<and> avail_rows (availability_df scenario_app) ''D1'' (2025, 12, 11)
          = [scenario_availability ! 1]
      \<and> \<not> av_IsAvailable (scenario_availability ! 1)"
    by code_simp
  have no_data: "selected_doctor_id scenario_app = Some ''D1'' \<and> ''D1'' \<noteq> []
      \<and> avail_rows (availability_df scenario_app) ''D1'' (2025, 12, 25) = []"
    by code_simp
  have full: "selected_doctor_id scenario_full = Some ''D1'' \<and> ''D1'' \<noteq> []
      \<and> avail_rows (availability_df scenario_full) ''D1'' (2025, 12, 10)
          = scenario_full_availability ! 0 # []
      \<and> av_IsAvailable (scenario_full_availability ! 0)
      \<and> get_remaining_units (appts_df scenario_full) ''D1'' (2025, 12, 10)
            (av_DailyCapacityUnits (scenario_full_availability ! 0)) < 1"
    by code_simp
  have bad: "(20::int) \<notin> {30, 45, 60}"
    by simp
  have good: "(30::int) \<in> {30, 45, 60} \<and> DURATION_TO_UNITS 30 = Some 1"
    by code_simp
  have room: "selected_doctor_id scenario_app = Some ''D1'' \<and> ''D1'' \<noteq> []
      \<and> avail_rows (availability_df scenario_app) ''D1'' (2025, 12, 10)
          = scenario_availability ! 0 # []
      \<and> av_IsAvailable (scenario_availability ! 0)
      \<and> (60::int) \<in> {30, 45, 60} \<and> DURATION_TO_UNITS 60 = Some 2
      \<and> 2 \<le> get_remaining_units (appts_df scenario_app) ''D1'' (2025, 12, 10)
            (av_DailyCapacityUnits (scenario_availability ! 0))"
    by code_simp
  from no_doctor rejection_order [where self = scenario_no_doctor and the_date = "(2025, 12, 10)"
                                              and m = 20 and now = 7]
  have 1: "fst (try_book scenario_no_doctor (2025, 12, 10) 20 7) = Rejected NoDoctor"
    by blast
  from closed rejection_order [where self = scenario_app and doc = "''D1''"
                                        and the_date = "(2025, 12, 11)" and m = 20 and now = 7]
  have 2: "fst (try_book scenario_app (2025, 12, 11) 20 7) = Rejected Unavailable"
    by simp
  from no_data rejection_order [where self = scenario_app and doc = "''D1''"
                                         and the_date = "(2025, 12, 25)" and m = 20 and now = 7]
  have 3: "fst (try_book scenario_app (2025, 12, 25) 20 7) = Rejected Unavailable"
    by simp
  from full bad
    rejection_order [where self = scenario_full and doc = "''D1''"
                       and the_date = "(2025, 12, 10)" and row = "scenario_full_availability ! 0"
                       and rest = "[]" and m = 20 and now = 7]
  have 4: "fst (try_book scenario_full (2025, 12, 10) 20 7) = Rejected InvalidDuration"
    by blast
  from full good
    rejection_order [where self = scenario_full and doc = "''D1''"
                       and the_date = "(2025, 12, 10)" and row = "scenario_full_availability ! 0"
                       and rest = "[]" and m = 30 and now = 7 and u = 1]
  have 5: "fst (try_book scenario_full (2025, 12, 10) 30 7) = Rejected InsufficientCapacity"
    by blast
  from room
    rejection_order [where self = scenario_app and doc = "''D1''"
                       and the_date = "(2025, 12, 10)" and row = "scenario_availability ! 0"
                       and rest = "[]" and m = 60 and now = 7 and u = 2]
  have 6: "\<forall>r. fst (try_book scenario_app (2025, 12, 10) 60 7) \<noteq> Rejected r"
    by blast
  from 1 2 3 4 5 6 show ?thesis
    by blast
qed

section \<open>A rejection changes nothing\<close>

text \<open>
  Claim C6. When a booking request is rejected, for whichever reason, the ledger in memory
  and the appointments file are as before, the callback is not called, nothing is printed,
  and the only effect is one of the rejection boxes, which is not the box that announces a
  booking.
\<close>

theorem rejection_atomic:
  assumes "fst (try_book self the_date m now) = Rejected r"
  shows "appts_df (snd (try_book self the_date m now)) = appts_df self
       \<and> appts_file (snd (try_book self the_date m now)) = appts_file self
       \<and> confirm_calls (snd (try_book self the_date m now)) = confirm_calls self
       \<and> printed (snd (try_book self the_date m now)) = printed self
       \<and> (\<exists>msg. snd (try_book self the_date m now) = self\<lparr>messages := messages self @ [msg]\<rparr>
             \<and> msg \<in> rejection_messages \<and> (\<forall>text. msg \<noteq> showinfo ''Booked'' text))"
proof -
  from try_book_cases [of self the_date m now] assms
  obtain r' msg where msg: "msg \<in> rejection_messages"
    and tb: "try_book self the_date m now = reject self r' msg"
    by (auto simp: commit_not_rejected)
  have "\<forall>text. msg \<noteq> showinfo ''Booked'' text"
    using msg by (auto simp: rejection_messages_def)
  moreover have "snd (try_book self the_date m now) = self\<lparr>messages := messages self @ [msg]\<rparr>"
    using tb by (simp add: reject_def)
  ultimately show ?thesis
    using msg by (intro conjI exI [of _ msg]) simp_all
qed

theorem rejection_atomic_witness:
  "appts_df (snd (try_book (scenario_app\<lparr>appts_df := scenario_ledger\<rparr>) (2025, 12, 11) 30 7))
     = scenario_ledger
   \<and> appts_file (snd (try_book (scenario_app\<lparr>appts_df := scenario_ledger\<rparr>) (2025, 12, 11) 30 7))
       = []
   \<and> confirm_calls (snd (try_book (scenario_app\<lparr>appts_df := scenario_ledger\<rparr>) (2025, 12, 11) 30 7))
       = []"
proof -
  have h: "fst (try_book (scenario_app\<lparr>appts_df := scenario_ledger\<rparr>) (2025, 12, 11) 30 7)
             = Rejected Unavailable"
    by code_simp
  have "appts_df (scenario_app\<lparr>appts_df := scenario_ledger\<rparr>) = scenario_ledger"
    "appts_file (scenario_app\<lparr>appts_df := scenario_ledger\<rparr>) = []"
    "confirm_calls (scenario_app\<lparr>appts_df := scenario_ledger\<rparr>) = []"
    by (simp_all add: scenario_app_def)
  with rejection_atomic [OF h] show ?thesis
    by simp
qed

section \<open>A failing callback does not undo the booking\<close>

lemma commit_success:
  assumes "file_writable self" and "on_confirm self = Some cb"
    and "cb m d = RaisesException e"
  shows "fst (commit self row d m) = Committed row"
    and "appts_file (snd (commit self row d m)) = appts_df self @ [row]"
    and "messages (snd (commit self row d m)) = messages self @ [booked_message d m]"
    and "printed (snd (commit self row d m))
           = printed self @ [''[Calendar] on_confirm callback failed: '' @ e]"
    and "confirm_calls (snd (commit self row d m)) = confirm_calls self @ [(m, d)]"
  using assms by (simp_all add: commit_def Let_def)

text \<open>
  Claim C10. When a request passes the checks, the file is written, and the callback given
  by the caller raises an \<^verbatim>\<open>Exception\<close>, the exception goes no further than a
  printed line: the appointment is in the ledger and in the file with status Booked, the
  booking is announced, and the call ends as a commit.
\<close>

theorem callback_failure_swallowed:
  assumes valid: "\<forall>r. fst (try_book self the_date m now) \<noteq> Rejected r"
    and writable: "file_writable self"
    and cb: "on_confirm self = Some cb"
    and raises: "cb m the_date = RaisesException e"
  shows "\<exists>a. fst (try_book self the_date m now) = Committed a
           \<and> Status a = ''Booked''
           \<and> appts_df (snd (try_book self the_date m now)) = appts_df self @ [a]
           \<and> appts_file (snd (try_book self the_date m now)) = appts_df self @ [a]
           \<and> confirm_calls (snd (try_book self the_date m now))
               = confirm_calls self @ [(m, the_date)]
           \<and> printed (snd (try_book self the_date m now))
               = printed self @ [''[Calendar] on_confirm callback failed: '' @ e]
           \<and> messages (snd (try_book self the_date m now))
               = messages self @ [booked_message the_date m]"
proof -
  from try_book_cases [of self the_date m now] valid
  obtain doc u where
    tb: "try_book self the_date m now = commit self (new_row self doc the_date m u now) the_date m"
    by (auto simp: fst_reject)
  show ?thesis
    unfolding tb
    by (intro exI [of _ "new_row self doc the_date m u now"] conjI)
       (simp_all add: commit_success [OF writable cb raises] commit_ledger new_row_fields)
qed

theorem callback_failure_swallowed_witness:
  "\<exists>a. fst (try_book scenario_failing_callback (2025, 12, 10) 60 7) = Committed a
     \<and> appts_file (snd (try_book scenario_failing_callback (2025, 12, 10) 60 7)) = [a]
     \<and> printed (snd (try_book scenario_failing_callback (2025, 12, 10) 60 7))
         = [''[Calendar] on_confirm callback failed: boom'']
     \<and> messages (snd (try_book scenario_failing_callback (2025, 12, 10) 60 7))
         = [booked_message (2025, 12, 10) 60]"
proof -
  have valid: "\<forall>r. fst (try_book scenario_failing_callback (2025, 12, 10) 60 7) \<noteq> Rejected r"
  proof -
    have "fst (try_book scenario_failing_callback (2025, 12, 10) 60 7)
            = Committed (new_row scenario_failing_callback ''D1'' (2025, 12, 10) 60 2 7)"
      by code_simp
    then show ?thesis by simp
  qed
  have writable: "file_writable scenario_failing_callback"
    by code_simp
  have cb: "on_confirm scenario_failing_callback
              = Some (\<lambda>minutes appt_date. RaisesException ''boom'')"
    by (simp add: scenario_failing_callback_def)
  have raises: "(\<lambda>minutes appt_date. RaisesException ''boom'') (60::int) (2025::int, 12::int, 10::int)
                  = RaisesException ''boom''"
    by simp
  have e: "appts_df scenario_failing_callback = []" "printed scenario_failing_callback = []"
    "messages scenario_failing_callback = []"
    by (simp_all add: scenario_failing_callback_def scenario_app_def)
  from callback_failure_swallowed [OF valid writable cb raises] show ?thesis
    by (auto simp: e)
qed

section \<open>Appointment ids\<close>

text \<open>
  Claim C7 asks that two committed appointments never share an id. The id is
  \<^verbatim>\<open>A-\<close> followed by the clock's whole seconds, so two bookings committed within the
  same second (here a quarter and three quarters of a second after 1765360800) get the same
  id: both are committed and the ledger then holds the id twice.
\<close>

theorem appointment_id_collision:
  "fst (try_book scenario_app (2025, 12, 10) 30 (7061443201 / 4))
     = Committed (new_row scenario_app ''D1'' (2025, 12, 10) 30 1 (7061443201 / 4))
   \<and> fst (try_book (snd (try_book scenario_app (2025, 12, 10) 30 (7061443201 / 4)))
            (2025, 12, 10) 30 (7061443203 / 4))
     = Committed (new_row scenario_app ''D1'' (2025, 12, 10) 30 1 (7061443203 / 4))
   \<and> map AppointmentID
        (appts_df (snd (try_book (snd (try_book scenario_app (2025, 12, 10) 30 (7061443201 / 4)))
                          (2025, 12, 10) 30 (7061443203 / 4))))
     = [''A-1765360800'', ''A-1765360800'']"
  by code_simp

section \<open>The billing estimate\<close>

lemma strip_Nil: "strip [] = []"
  by (simp add: strip_def)

text \<open>
  Claim C8. For a specialty whose fee is \<open>F\<close> and a stored duration \<open>D\<close> of 30, 45 or
  60 minutes, the quote has base fee \<open>F\<close>, the multiplier 1.5, 2 or 2.5 of \<open>D\<close>,
  gross cost fee times multiplier, discount amount gross times discount percent over 100,
  and net cost gross less discount; the discount percent is the table's entry \<open>P\<close> of the
  patient's insurance id. Fee 200, 45 minutes and 20 percent give multiplier 2, gross 400,
  discount 80 and net 320.
\<close>

theorem billing_derivation:
  assumes fee: "doc_fee_map self (lower (strip (or_else (Specialty self) []))) = Some F"
    and minutes: "last_appointment_minutes self = Some D"
    and valid: "D \<in> {30, 45, 60}"
  shows "base_fee (recalc self) = F
       \<and> mins (recalc self) = D
       \<and> mult (recalc self) = (if D = 30 then 3 / 2 else if D = 45 then 2 else 5 / 2)
       \<and> gross (recalc self) = F * mult (recalc self)
       \<and> discount_amt (recalc self) = gross (recalc self) * discount_pct (recalc self) / 100
       \<and> net (recalc self) = gross (recalc self) - discount_amt (recalc self)
       \<and> (\<forall>ins P. insurance self = Some ins \<and> strip ins \<noteq> []
              \<and> ins_disc_map self (strip ins) = Some P \<longrightarrow> discount_pct (recalc self) = P)"
proof (intro conjI allI impI)
  show "base_fee (recalc self) = F"
    using fee by (simp add: recalc_def Let_def get_or_def)
  show D: "mins (recalc self) = D"
    using minutes valid by (auto simp: recalc_def Let_def)
  have "mult (recalc self) = get_or time_mult (mins (recalc self)) 1"
    by (simp add: recalc_def Let_def)
  with valid show "mult (recalc self) = (if D = 30 then 3 / 2 else if D = 45 then 2 else 5 / 2)"
    unfolding D by (auto simp: get_or_def time_mult_def)
  have "gross (recalc self) = base_fee (recalc self) * mult (recalc self)"
    by (simp add: recalc_def Let_def)
  with \<open>base_fee (recalc self) = F\<close> show "gross (recalc self) = F * mult (recalc self)"
    by simp
  show "discount_amt (recalc self) = gross (recalc self) * discount_pct (recalc self) / 100"
    by (simp add: recalc_def Let_def)
  show "net (recalc self) = gross (recalc self) - discount_amt (recalc self)"
    by (simp add: recalc_def Let_def)
next
  fix ins P
  assume a: "insurance self = Some ins \<and> strip ins \<noteq> []
               \<and> ins_disc_map self (strip ins) = Some P"
  then have "ins \<noteq> []"
    using strip_Nil by blast
  with a show "discount_pct (recalc self) = P"
    by (simp add: recalc_def Let_def get_or_def)
qed

theorem billing_derivation_witness:
  "mult (recalc scenario_billing) = 2
   \<and> gross (recalc scenario_billing) = 400
   \<and> discount_amt (recalc scenario_billing) = 80
   \<and> net (recalc scenario_billing) = 320"
proof -
  have fee: "doc_fee_map scenario_billing
               (lower (strip (or_else (Specialty scenario_billing) []))) = Some 200"
    by code_simp
  have minutes: "last_appointment_minutes scenario_billing = Some 45"
    by code_simp
  have valid: "(45::int) \<in> {30, 45, 60}"
    by simp
  have ins: "insurance scenario_billing = Some ''INS1'' \<and> strip ''INS1'' \<noteq> []
               \<and> ins_disc_map scenario_billing (strip ''INS1'') = Some 20"
    by code_simp
  note all = billing_derivation [OF fee minutes valid]
  from all ins have P: "discount_pct (recalc scenario_billing) = 20"
    by blast
  from all have M: "mult (recalc scenario_billing) = 2"
    by simp
  from all M have G: "gross (recalc scenario_billing) = 400"
    by simp
  from all G P have A: "discount_amt (recalc scenario_billing) = 80"
    by simp
  from all G A have "net (recalc scenario_billing) = 320"
    by simp
  with M G A show ?thesis
    by simp
qed

text \<open>
  Claim C9. The quote falls back on defaults and is always produced (\<open>recalc\<close> has no
  failing branch): a specialty that has no fee under its stripped lower-case key gives base
  fee 0; no insurance id, a blank one, or one absent from the discount table gives discount 0;
  a stored duration that is none of 30, 45, 60 is billed as 30 minutes, at 1.5. An unknown
  specialty without insurance costs 0.
\<close>

theorem billing_defaults:
  "(doc_fee_map self (lower (strip (or_else (Specialty self) []))) = None \<longrightarrow>
      base_fee (recalc self) = 0)
   \<and> (\<not> truthy (insurance self)
       \<or> (\<exists>ins. insurance self = Some ins
             \<and> (strip ins = [] \<or> ins_disc_map self (strip ins) = None)) \<longrightarrow>
      discount_pct (recalc self) = 0 \<and> discount_amt (recalc self) = 0)
   \<and> ((\<forall>D. last_appointment_minutes self = Some D \<longrightarrow> D \<notin> {30, 45, 60}) \<longrightarrow>
      mins (recalc self) = 30 \<and> mult (recalc self) = 3 / 2)
   \<and> (doc_fee_map self (lower (strip (or_else (Specialty self) []))) = None
       \<and> \<not> truthy (insurance self) \<longrightarrow>
      base_fee (recalc self) = 0 \<and> discount_pct (recalc self) = 0 \<and> net (recalc self) = 0)"
proof (intro conjI impI)
  assume "doc_fee_map self (lower (strip (or_else (Specialty self) []))) = None"
  then show "base_fee (recalc self) = 0"
    by (simp add: recalc_def Let_def get_or_def)
next
  assume "\<not> truthy (insurance self)
       \<or> (\<exists>ins. insurance self = Some ins
             \<and> (strip ins = [] \<or> ins_disc_map self (strip ins) = None))"
  then have "discount_pct (recalc self) = 0"
    by (auto simp: recalc_def Let_def get_or_def)
  then show "discount_pct (recalc self) = 0" "discount_amt (recalc self) = 0"
    by (simp_all add: recalc_def Let_def)
next
  assume a: "\<forall>D. last_appointment_minutes self = Some D \<longrightarrow> D \<notin> {30, 45, 60}"
  then have "mins (recalc self) = 30"
    by (cases "last_appointment_minutes self") (auto simp: recalc_def Let_def)
  then show "mins (recalc self) = 30" "mult (recalc self) = 3 / 2"
    by (simp_all add: recalc_def Let_def get_or_def time_mult_def)
next
  assume a: "doc_fee_map self (lower (strip (or_else (Specialty self) []))) = None
       \<and> \<not> truthy (insurance self)"
  then show "base_fee (recalc self) = 0" "discount_pct (recalc self) = 0" "net (recalc self) = 0"
    by (simp_all add: recalc_def Let_def get_or_def)
qed

theorem billing_defaults_witness:
  "base_fee (recalc scenario_billing_unknown) = 0
   \<and> discount_pct (recalc scenario_billing_unknown) = 0
   \<and> mins (recalc scenario_billing_unknown) = 30
   \<and> mult (recalc scenario_billing_unknown) = 3 / 2
   \<and> net (recalc scenario_billing_unknown) = 0"
proof -
  have fee: "doc_fee_map scenario_billing_unknown
               (lower (strip (or_else (Specialty scenario_billing_unknown) []))) = None"
    by code_simp
  have ins: "\<not> truthy (insurance scenario_billing_unknown)"
    by code_simp
  have minutes: "\<forall>D. last_appointment_minutes scenario_billing_unknown = Some D
                   \<longrightarrow> D \<notin> {30, 45, 60}"
  proof -
    have "last_appointment_minutes scenario_billing_unknown = Some 20"
      by code_simp
    then show ?thesis by simp
  qed
  from billing_defaults [of scenario_billing_unknown] fee ins minutes show ?thesis
    by blast
qed

end
